theory Spec2Isabelle
  imports Main "HOL-Library.Word"
begin

section \<open>The three \<open>sum.c\<close> programs over the LLVM C interface\<close>

text \<open>
  The repository holds three C programs, \<^verbatim>\<open>LLVM-C/Chapter1/sum.c\<close>,
  \<^verbatim>\<open>LLVM-C/Chapter2/sum.c\<close> and \<^verbatim>\<open>LLVM-C/sum.c\<close>. Each is one \<^verbatim>\<open>main\<close>
  that calls the LLVM C interface. The interface itself is an external library: here it
  is a small state machine over a \<open>world\<close>, covering the calls the programs make. What
  the programs cannot determine (whether the verifier finds the module broken, the
  result codes of writing and emitting, the target found for a triple) is read from an
  \<open>env\<close>, one field per call site, so that every behaviour of the library is some
  \<open>env\<close>.

  Each \<^verbatim>\<open>main\<close> is a state-passing function that returns the final world: the modules
  built, the trace of library calls and of lines printed (in program order), the
  process status, and the list of reads of indeterminate values. A variable that was
  declared without initialiser holds \<open>Indeterminate\<close>. Passing that value on is logged.
  Using it (a dereference by the program, a store through it by the library) is
  undefined behaviour: from there on the C program determines nothing about what the
  process does, and in practice it dies. The model records that point: the status
  becomes \<open>Undefined\<close> and stays so, and \<open>undefined_from\<close> holds the number of events
  the run had made. The events up to there are the run the process really makes,
  \<open>real_trace\<close>. The embedding is total all the same: the statements behind that point
  are still evaluated and logged in \<open>trace\<close> and \<open>faults\<close>, with \<open>None\<close> for every value
  read, so that the reads which the program text makes can all be stated.
\<close>

subsection \<open>C values\<close>

text \<open>\<^verbatim>\<open>int\<close> and \<^verbatim>\<open>LLVMBool\<close> (\<^verbatim>\<open>typedef int LLVMBool\<close>) are 32 bits wide.\<close>

type_synonym c_int = "32 word"
type_synonym LLVMBool = "32 word"

text \<open>A \<^verbatim>\<open>char *\<close>: the null pointer, or a string.\<close>

datatype c_str = NULL | Str string

text \<open>
  A pointer to a cell (\<^verbatim>\<open>char **\<close>, \<^verbatim>\<open>LLVMTargetRef *\<close>, \<^verbatim>\<open>LLVMMemoryBufferRef *\<close>):
  the address of a local variable, which its name identifies since \<^verbatim>\<open>main\<close> is the only
  function and is not recursive, or the indeterminate value of an automatic variable
  that was never assigned.
\<close>

datatype ptr = Indeterminate | AddrOf string

subsection \<open>The intermediate representation\<close>

text \<open>
  Types are uniqued by the library, so a type handle is the type. Values and blocks are
  handles into the module table: a function by module and position, a parameter by its
  function and index, an instruction by its block and position.
\<close>

datatype LLVMTypeRef = Int32Ty | FunctionTy LLVMTypeRef "LLVMTypeRef list" bool

type_synonym LLVMModuleRef = nat
type_synonym LLVMBuilderRef = nat
type_synonym LLVMMemoryBufferRef = nat

datatype LLVMTargetMachineRef = NullTM | TM nat

datatype LLVMValueRef =
    NullV
  | FunctionV LLVMModuleRef nat
  | ParamV LLVMModuleRef nat nat
  | InstV LLVMModuleRef nat nat nat

datatype LLVMBasicBlockRef = NullBB | BlockRef LLVMModuleRef nat nat

datatype instruction =
    AddInst string LLVMValueRef LLVMValueRef
  | RetInst LLVMValueRef

record LLVMBasicBlock =
  bb_name :: string
  bb_insts :: "instruction list"

record LLVMFunction =
  fn_name :: string
  fn_type :: LLVMTypeRef
  fn_blocks :: "LLVMBasicBlock list"

record LLVMModule =
  mod_name :: string
  mod_functions :: "LLVMFunction list"

datatype builder_state = Unpositioned | At LLVMBasicBlockRef | Disposed

subsection \<open>Enumerations of the interface\<close>

datatype LLVMVerifierFailureAction =
  LLVMAbortProcessAction | LLVMPrintMessageAction | LLVMReturnStatusAction

datatype LLVMCodeGenOptLevel =
  LLVMCodeGenLevelNone | LLVMCodeGenLevelLess | LLVMCodeGenLevelDefault
  | LLVMCodeGenLevelAggressive

datatype LLVMRelocMode =
  LLVMRelocDefault | LLVMRelocStatic | LLVMRelocPIC | LLVMRelocDynamicNoPic

datatype LLVMCodeModel =
  LLVMCodeModelDefault | LLVMCodeModelJITDefault | LLVMCodeModelSmall
  | LLVMCodeModelKernel | LLVMCodeModelMedium | LLVMCodeModelLarge

datatype LLVMCodeGenFileType = LLVMAssemblyFile | LLVMObjectFile

text \<open>A target handle: null when the lookup found none.\<close>

datatype LLVMTargetRef = NullTarget | Target string

subsection \<open>Events, faults and the world\<close>

text \<open>
  One constructor per library function, with the arguments as passed. An argument read
  from an indeterminate location is \<open>None\<close>.
\<close>

datatype llvm_call =
    ModuleCreateWithName string
  | Int32Type
  | FunctionType LLVMTypeRef "LLVMTypeRef list" nat LLVMBool
  | AddFunction LLVMModuleRef string LLVMTypeRef
  | AppendBasicBlock LLVMValueRef string
  | CreateBuilder
  | PositionBuilderAtEnd LLVMBuilderRef LLVMBasicBlockRef
  | GetParam LLVMValueRef nat
  | BuildAdd LLVMBuilderRef LLVMValueRef LLVMValueRef string
  | BuildRet LLVMBuilderRef LLVMValueRef
  | VerifyModule LLVMModuleRef LLVMVerifierFailureAction ptr
  | DisposeMessage "c_str option"
  | WriteBitcodeToFile LLVMModuleRef string
  | WriteBitcodeToMemoryBuffer LLVMModuleRef
  | InitializeAllTargets
  | InitializeAllTargetMCs
  | InitializeAllTargetInfos
  | InitializeAllAsmPrinters
  | GetTargetFromTriple string ptr ptr
  | CreateTargetMachine "LLVMTargetRef option" string string string
      LLVMCodeGenOptLevel LLVMRelocMode LLVMCodeModel
  | TargetMachineEmitToFile LLVMTargetMachineRef LLVMModuleRef string
      LLVMCodeGenFileType ptr
  | TargetMachineEmitToMemoryBuffer LLVMTargetMachineRef LLVMModuleRef
      LLVMCodeGenFileType ptr ptr
  | DisposeBuilder LLVMBuilderRef

text \<open>
  The arguments of a \<^verbatim>\<open>printf\<close>: a string (\<open>None\<close> when it was read through an
  indeterminate pointer) or an \<^verbatim>\<open>int\<close>.
\<close>

datatype printf_arg = StrArg "c_str option" | IntArg int

datatype event =
    Call llvm_call
  | Stdout string "printf_arg list"
  | Stderr string "printf_arg list"

text \<open>
  \<open>UninitRead x\<close>: the program read the variable \<open>x\<close> while it was indeterminate (to
  pass it on). \<open>UninitDeref x\<close>: the program dereferenced it. \<open>WildStore f\<close>: the
  library function \<open>f\<close> was to store through an indeterminate pointer. \<open>BadHandle f\<close>:
  \<open>f\<close> was given a handle that denotes nothing. The last three are undefined
  behaviour.
\<close>

datatype fault =
    UninitRead string
  | UninitDeref string
  | WildStore string
  | BadHandle string

text \<open>
  \<open>Exited n\<close>: \<^verbatim>\<open>main\<close> returned \<open>n\<close>. \<open>Aborted\<close>: the library aborted the process.
  \<open>Undefined\<close>: the run met undefined behaviour.
\<close>

datatype proc_status = Running | Exited int | Aborted | Undefined

record world =
  modules :: "LLVMModule list"
  builders :: "builder_state list"
  machines :: nat
  buffers :: nat
  str_cells :: "string \<Rightarrow> c_str option"
  tgt_cells :: "string \<Rightarrow> LLVMTargetRef option"
  buf_cells :: "string \<Rightarrow> LLVMMemoryBufferRef option"
  trace :: "event list"
  faults :: "fault list"
  status :: proc_status
  undefined_from :: "nat option"

text \<open>What the library answers, one field per call site.\<close>

record env =
  verify_result :: LLVMBool
  verify_messages :: string
  write_bitcode_result :: c_int
  get_target_result :: LLVMBool
  get_target_out :: LLVMTargetRef
  get_target_message :: string
  emit_file_result :: "LLVMCodeGenFileType \<Rightarrow> LLVMBool"
  emit_file_message :: "LLVMCodeGenFileType \<Rightarrow> string"
  emit_mem_result :: LLVMBool
  emit_mem_message :: string

definition init_world :: world where
  "init_world =
     \<lparr>modules = [], builders = [], machines = 0, buffers = 0,
      str_cells = (\<lambda>_. None), tgt_cells = (\<lambda>_. None), buf_cells = (\<lambda>_. None),
      trace = [], faults = [], status = Running, undefined_from = None\<rparr>"

definition log_event :: "event \<Rightarrow> world \<Rightarrow> world" where
  "log_event e w = w\<lparr>trace := trace w @ [e]\<rparr>"

definition log_fault :: "fault \<Rightarrow> world \<Rightarrow> world" where
  "log_fault f w = w\<lparr>faults := faults w @ [f]\<rparr>"

text \<open>
  The fault \<open>f\<close> is undefined behaviour. The first one ends the run that the process
  really makes, after the events made so far; the status is \<open>Undefined\<close> from then on.
\<close>

definition undefined_behaviour :: "fault \<Rightarrow> world \<Rightarrow> world" where
  "undefined_behaviour f w =
     (let w = log_fault f w
      in case undefined_from w of
           None \<Rightarrow> w\<lparr>status := Undefined, undefined_from := Some (length (trace w))\<rparr>
         | Some n \<Rightarrow> w)"

text \<open>Reaching the closing brace of \<^verbatim>\<open>main\<close>, or \<^verbatim>\<open>return r\<close> in it.\<close>

definition return_from_main :: "int \<Rightarrow> world \<Rightarrow> world" where
  "return_from_main r w = (if status w = Running then w\<lparr>status := Exited r\<rparr> else w)"

definition map_at :: "nat \<Rightarrow> ('a \<Rightarrow> 'a) \<Rightarrow> 'a list \<Rightarrow> 'a list" where
  "map_at i f xs = (if i < length xs then xs[i := f (xs ! i)] else xs)"

subsection \<open>Standard output and standard error\<close>

definition printf :: "string \<Rightarrow> printf_arg list \<Rightarrow> world \<Rightarrow> world" where
  "printf fmt args w = log_event (Stdout fmt args) w"

definition fprintf_stderr :: "string \<Rightarrow> printf_arg list \<Rightarrow> world \<Rightarrow> world" where
  "fprintf_stderr fmt args w = log_event (Stderr fmt args) w"

subsection \<open>Local variables and the store\<close>

text \<open>
  A local whose address is taken lives in a cell of the store, under its name; a cell
  holds \<open>None\<close> until it is assigned. The pointer variables of the programs are plain
  values of type \<open>ptr\<close>.
\<close>

definition set_str :: "string \<Rightarrow> c_str \<Rightarrow> world \<Rightarrow> world" where
  "set_str x v w = w\<lparr>str_cells := (str_cells w)(x := Some v)\<rparr>"

definition set_tgt :: "string \<Rightarrow> LLVMTargetRef \<Rightarrow> world \<Rightarrow> world" where
  "set_tgt x v w = w\<lparr>tgt_cells := (tgt_cells w)(x := Some v)\<rparr>"

definition set_buf :: "string \<Rightarrow> LLVMMemoryBufferRef \<Rightarrow> world \<Rightarrow> world" where
  "set_buf x v w = w\<lparr>buf_cells := (buf_cells w)(x := Some v)\<rparr>"

text \<open>Reading the local \<open>x\<close> from its cell: indeterminate when it was never assigned.\<close>

definition get_str :: "string \<Rightarrow> world \<Rightarrow> c_str option \<times> world" where
  "get_str x w =
     (case str_cells w x of
        None \<Rightarrow> (None, log_fault (UninitRead x) w)
      | Some v \<Rightarrow> (Some v, w))"

definition get_tgt :: "string \<Rightarrow> world \<Rightarrow> LLVMTargetRef option \<times> world" where
  "get_tgt x w =
     (case tgt_cells w x of
        None \<Rightarrow> (None, log_fault (UninitRead x) w)
      | Some v \<Rightarrow> (Some v, w))"

text \<open>
  \<open>read_ptr x p\<close> is the use of the pointer variable \<open>x\<close>, whose value is \<open>p\<close>, as an
  argument. \<open>deref_str x p\<close> and \<open>deref_tgt x p\<close> are \<^verbatim>\<open>*x\<close>: undefined behaviour when
  \<open>x\<close> was never assigned.
\<close>

definition read_ptr :: "string \<Rightarrow> ptr \<Rightarrow> world \<Rightarrow> ptr \<times> world" where
  "read_ptr x p w =
     (case p of
        Indeterminate \<Rightarrow> (Indeterminate, log_fault (UninitRead x) w)
      | AddrOf y \<Rightarrow> (AddrOf y, w))"

definition deref_str :: "string \<Rightarrow> ptr \<Rightarrow> world \<Rightarrow> c_str option \<times> world" where
  "deref_str x p w =
     (case p of
        Indeterminate \<Rightarrow> (None, undefined_behaviour (UninitDeref x) w)
      | AddrOf y \<Rightarrow> get_str y w)"

definition deref_tgt :: "string \<Rightarrow> ptr \<Rightarrow> world \<Rightarrow> LLVMTargetRef option \<times> world" where
  "deref_tgt x p w =
     (case p of
        Indeterminate \<Rightarrow> (None, undefined_behaviour (UninitDeref x) w)
      | AddrOf y \<Rightarrow> get_tgt y w)"

text \<open>
  The library storing through a pointer it was given: undefined behaviour when the
  pointer is indeterminate.
\<close>

definition store_str :: "string \<Rightarrow> ptr \<Rightarrow> c_str \<Rightarrow> world \<Rightarrow> world" where
  "store_str f p v w =
     (case p of
        Indeterminate \<Rightarrow> undefined_behaviour (WildStore f) w
      | AddrOf y \<Rightarrow> set_str y v w)"

definition store_tgt :: "string \<Rightarrow> ptr \<Rightarrow> LLVMTargetRef \<Rightarrow> world \<Rightarrow> world" where
  "store_tgt f p v w =
     (case p of
        Indeterminate \<Rightarrow> undefined_behaviour (WildStore f) w
      | AddrOf y \<Rightarrow> set_tgt y v w)"

definition store_buf :: "string \<Rightarrow> ptr \<Rightarrow> LLVMMemoryBufferRef \<Rightarrow> world \<Rightarrow> world" where
  "store_buf f p v w =
     (case p of
        Indeterminate \<Rightarrow> undefined_behaviour (WildStore f) w
      | AddrOf y \<Rightarrow> set_buf y v w)"

subsection \<open>The library: building the module\<close>

definition LLVMModuleCreateWithName :: "string \<Rightarrow> world \<Rightarrow> LLVMModuleRef \<times> world" where
  "LLVMModuleCreateWithName ModuleID w =
     (length (modules w),
      log_event (Call (ModuleCreateWithName ModuleID))
        (w\<lparr>modules := modules w @ [\<lparr>mod_name = ModuleID, mod_functions = []\<rparr>]\<rparr>))"

definition LLVMInt32Type :: "world \<Rightarrow> LLVMTypeRef \<times> world" where
  "LLVMInt32Type w = (Int32Ty, log_event (Call Int32Type) w)"

text \<open>The first \<open>ParamCount\<close> entries of the array are the parameter types.\<close>

definition LLVMFunctionType ::
  "LLVMTypeRef \<Rightarrow> LLVMTypeRef list \<Rightarrow> nat \<Rightarrow> LLVMBool \<Rightarrow> world \<Rightarrow> LLVMTypeRef \<times> world" where
  "LLVMFunctionType ReturnType ParamTypes ParamCount IsVarArg w =
     (let w = log_event (Call (FunctionType ReturnType ParamTypes ParamCount IsVarArg)) w
      in if ParamCount \<le> length ParamTypes
         then (FunctionTy ReturnType (take ParamCount ParamTypes) (IsVarArg \<noteq> 0), w)
         else (FunctionTy ReturnType ParamTypes (IsVarArg \<noteq> 0),
               undefined_behaviour (BadHandle ''LLVMFunctionType'') w))"

text \<open>
  The new function goes to the end of the module's function list. (The library renames
  a function whose name is taken; the module of these programs is empty before.)
\<close>

definition LLVMAddFunction ::
  "LLVMModuleRef \<Rightarrow> string \<Rightarrow> LLVMTypeRef \<Rightarrow> world \<Rightarrow> LLVMValueRef \<times> world" where
  "LLVMAddFunction M Name FunctionTy' w =
     (let w = log_event (Call (AddFunction M Name FunctionTy')) w
      in if M < length (modules w)
         then (FunctionV M (length (mod_functions (modules w ! M))),
               w\<lparr>modules := map_at M
                   (\<lambda>m. m\<lparr>mod_functions := mod_functions m @
                       [\<lparr>fn_name = Name, fn_type = FunctionTy', fn_blocks = []\<rparr>]\<rparr>)
                   (modules w)\<rparr>)
         else (NullV, undefined_behaviour (BadHandle ''LLVMAddFunction'') w))"

definition valid_function :: "world \<Rightarrow> LLVMModuleRef \<Rightarrow> nat \<Rightarrow> bool" where
  "valid_function w M F \<longleftrightarrow>
     M < length (modules w) \<and> F < length (mod_functions (modules w ! M))"

definition valid_block :: "world \<Rightarrow> LLVMModuleRef \<Rightarrow> nat \<Rightarrow> nat \<Rightarrow> bool" where
  "valid_block w M F K \<longleftrightarrow>
     valid_function w M F \<and> K < length (fn_blocks (mod_functions (modules w ! M) ! F))"

definition LLVMAppendBasicBlock ::
  "LLVMValueRef \<Rightarrow> string \<Rightarrow> world \<Rightarrow> LLVMBasicBlockRef \<times> world" where
  "LLVMAppendBasicBlock Fn Name w =
     (let w = log_event (Call (AppendBasicBlock Fn Name)) w
      in case Fn of
           FunctionV M F \<Rightarrow>
             if valid_function w M F
             then (BlockRef M F (length (fn_blocks (mod_functions (modules w ! M) ! F))),
                   w\<lparr>modules := map_at M
                       (\<lambda>m. m\<lparr>mod_functions := map_at F
                           (\<lambda>f. f\<lparr>fn_blocks := fn_blocks f @
                               [\<lparr>bb_name = Name, bb_insts = []\<rparr>]\<rparr>)
                           (mod_functions m)\<rparr>)
                       (modules w)\<rparr>)
             else (NullBB, undefined_behaviour (BadHandle ''LLVMAppendBasicBlock'') w)
         | _ \<Rightarrow> (NullBB, undefined_behaviour (BadHandle ''LLVMAppendBasicBlock'') w))"

definition LLVMCreateBuilder :: "world \<Rightarrow> LLVMBuilderRef \<times> world" where
  "LLVMCreateBuilder w =
     (length (builders w),
      log_event (Call CreateBuilder) (w\<lparr>builders := builders w @ [Unpositioned]\<rparr>))"

definition live_builder :: "world \<Rightarrow> LLVMBuilderRef \<Rightarrow> bool" where
  "live_builder w B \<longleftrightarrow> B < length (builders w) \<and> builders w ! B \<noteq> Disposed"

definition LLVMPositionBuilderAtEnd ::
  "LLVMBuilderRef \<Rightarrow> LLVMBasicBlockRef \<Rightarrow> world \<Rightarrow> world" where
  "LLVMPositionBuilderAtEnd Builder Block w =
     (let w = log_event (Call (PositionBuilderAtEnd Builder Block)) w
      in if live_builder w Builder
         then w\<lparr>builders := (builders w)[Builder := At Block]\<rparr>
         else undefined_behaviour (BadHandle ''LLVMPositionBuilderAtEnd'') w)"

definition param_count :: "LLVMTypeRef \<Rightarrow> nat" where
  "param_count t = (case t of FunctionTy _ ps _ \<Rightarrow> length ps | Int32Ty \<Rightarrow> 0)"

definition LLVMGetParam :: "LLVMValueRef \<Rightarrow> nat \<Rightarrow> world \<Rightarrow> LLVMValueRef \<times> world" where
  "LLVMGetParam Fn Index w =
     (let w = log_event (Call (GetParam Fn Index)) w
      in case Fn of
           FunctionV M F \<Rightarrow>
             if valid_function w M F \<and>
                Index < param_count (fn_type (mod_functions (modules w ! M) ! F))
             then (ParamV M F Index, w)
             else (NullV, undefined_behaviour (BadHandle ''LLVMGetParam'') w)
         | _ \<Rightarrow> (NullV, undefined_behaviour (BadHandle ''LLVMGetParam'') w))"

text \<open>
  The builder appends the instruction to the block it is positioned at; the value
  returned is the instruction. A builder that is not positioned at a block of the
  module inserts nothing.
\<close>

definition insert_inst ::
  "string \<Rightarrow> LLVMBuilderRef \<Rightarrow> instruction \<Rightarrow> world \<Rightarrow> LLVMValueRef \<times> world" where
  "insert_inst fname B i w =
     (if live_builder w B
      then (case builders w ! B of
              At (BlockRef M F K) \<Rightarrow>
                if valid_block w M F K
                then (InstV M F K
                        (length (bb_insts (fn_blocks (mod_functions (modules w ! M) ! F) ! K))),
                      w\<lparr>modules := map_at M
                          (\<lambda>m. m\<lparr>mod_functions := map_at F
                              (\<lambda>f. f\<lparr>fn_blocks := map_at K
                                  (\<lambda>b. b\<lparr>bb_insts := bb_insts b @ [i]\<rparr>)
                                  (fn_blocks f)\<rparr>)
                              (mod_functions m)\<rparr>)
                          (modules w)\<rparr>)
                else (NullV, undefined_behaviour (BadHandle fname) w)
            | _ \<Rightarrow> (NullV, undefined_behaviour (BadHandle fname) w))
      else (NullV, undefined_behaviour (BadHandle fname) w))"

definition LLVMBuildAdd ::
  "LLVMBuilderRef \<Rightarrow> LLVMValueRef \<Rightarrow> LLVMValueRef \<Rightarrow> string \<Rightarrow> world
     \<Rightarrow> LLVMValueRef \<times> world" where
  "LLVMBuildAdd B LHS RHS Name w =
     insert_inst ''LLVMBuildAdd'' B (AddInst Name LHS RHS)
       (log_event (Call (BuildAdd B LHS RHS Name)) w)"

definition LLVMBuildRet :: "LLVMBuilderRef \<Rightarrow> LLVMValueRef \<Rightarrow> world \<Rightarrow> LLVMValueRef \<times> world" where
  "LLVMBuildRet B V w =
     insert_inst ''LLVMBuildRet'' B (RetInst V) (log_event (Call (BuildRet B V)) w)"

definition LLVMDisposeBuilder :: "LLVMBuilderRef \<Rightarrow> world \<Rightarrow> world" where
  "LLVMDisposeBuilder Builder w =
     (let w = log_event (Call (DisposeBuilder Builder)) w
      in if live_builder w Builder
         then w\<lparr>builders := (builders w)[Builder := Disposed]\<rparr>
         else undefined_behaviour (BadHandle ''LLVMDisposeBuilder'') w)"

subsection \<open>The library: verifying and writing\<close>

text \<open>
  With \<open>LLVMAbortProcessAction\<close> a broken module aborts the process inside the call,
  which then does not return: the result is \<open>None\<close>. Otherwise the messages are stored
  through \<open>OutMessages\<close> and the result is returned.
\<close>

definition LLVMVerifyModule ::
  "env \<Rightarrow> LLVMModuleRef \<Rightarrow> LLVMVerifierFailureAction \<Rightarrow> ptr \<Rightarrow> world
     \<Rightarrow> LLVMBool option \<times> world" where
  "LLVMVerifyModule env M Action OutMessages w =
     (let w = log_event (Call (VerifyModule M Action OutMessages)) w
      in if Action = LLVMAbortProcessAction \<and> verify_result env \<noteq> 0
         then (None, if status w = Running then w\<lparr>status := Aborted\<rparr> else w)
         else (Some (verify_result env),
               store_str ''LLVMVerifyModule'' OutMessages (Str (verify_messages env)) w))"

definition LLVMDisposeMessage :: "c_str option \<Rightarrow> world \<Rightarrow> world" where
  "LLVMDisposeMessage Message w = log_event (Call (DisposeMessage Message)) w"

definition LLVMWriteBitcodeToFile ::
  "env \<Rightarrow> LLVMModuleRef \<Rightarrow> string \<Rightarrow> world \<Rightarrow> c_int \<times> world" where
  "LLVMWriteBitcodeToFile env M Path w =
     (write_bitcode_result env, log_event (Call (WriteBitcodeToFile M Path)) w)"

definition LLVMWriteBitcodeToMemoryBuffer ::
  "LLVMModuleRef \<Rightarrow> world \<Rightarrow> LLVMMemoryBufferRef \<times> world" where
  "LLVMWriteBitcodeToMemoryBuffer M w =
     (buffers w,
      log_event (Call (WriteBitcodeToMemoryBuffer M)) (w\<lparr>buffers := Suc (buffers w)\<rparr>))"

subsection \<open>The library: targets and emission\<close>

definition LLVMInitializeAllTargets :: "world \<Rightarrow> world" where
  "LLVMInitializeAllTargets w = log_event (Call InitializeAllTargets) w"

definition LLVMInitializeAllTargetMCs :: "world \<Rightarrow> world" where
  "LLVMInitializeAllTargetMCs w = log_event (Call InitializeAllTargetMCs) w"

definition LLVMInitializeAllTargetInfos :: "world \<Rightarrow> world" where
  "LLVMInitializeAllTargetInfos w = log_event (Call InitializeAllTargetInfos) w"

definition LLVMInitializeAllAsmPrinters :: "world \<Rightarrow> world" where
  "LLVMInitializeAllAsmPrinters w = log_event (Call InitializeAllAsmPrinters) w"

text \<open>
  The target found is stored through \<open>T\<close>; on a failure result the message is stored
  through \<open>ErrorMessage\<close>.
\<close>

definition LLVMGetTargetFromTriple ::
  "env \<Rightarrow> string \<Rightarrow> ptr \<Rightarrow> ptr \<Rightarrow> world \<Rightarrow> LLVMBool \<times> world" where
  "LLVMGetTargetFromTriple env Triple T ErrorMessage w =
     (let w = log_event (Call (GetTargetFromTriple Triple T ErrorMessage)) w;
          w = store_tgt ''LLVMGetTargetFromTriple'' T (get_target_out env) w;
          w = (if get_target_result env \<noteq> 0
               then store_str ''LLVMGetTargetFromTriple'' ErrorMessage
                      (Str (get_target_message env)) w
               else w)
      in (get_target_result env, w))"

definition LLVMCreateTargetMachine ::
  "LLVMTargetRef option \<Rightarrow> string \<Rightarrow> string \<Rightarrow> string \<Rightarrow> LLVMCodeGenOptLevel
     \<Rightarrow> LLVMRelocMode \<Rightarrow> LLVMCodeModel \<Rightarrow> world \<Rightarrow> LLVMTargetMachineRef \<times> world" where
  "LLVMCreateTargetMachine T Triple CPU Features Level Reloc CodeModel w =
     (let w = log_event
                (Call (CreateTargetMachine T Triple CPU Features Level Reloc CodeModel)) w
      in case T of
           Some (Target t) \<Rightarrow> (TM (machines w), w\<lparr>machines := Suc (machines w)\<rparr>)
         | _ \<Rightarrow> (NullTM, undefined_behaviour (BadHandle ''LLVMCreateTargetMachine'') w))"

definition LLVMTargetMachineEmitToFile ::
  "env \<Rightarrow> LLVMTargetMachineRef \<Rightarrow> LLVMModuleRef \<Rightarrow> string \<Rightarrow> LLVMCodeGenFileType \<Rightarrow> ptr
     \<Rightarrow> world \<Rightarrow> LLVMBool \<times> world" where
  "LLVMTargetMachineEmitToFile env T M Filename codegen ErrorMessage w =
     (let w = log_event (Call (TargetMachineEmitToFile T M Filename codegen ErrorMessage)) w;
          w = (if T = NullTM
               then undefined_behaviour (BadHandle ''LLVMTargetMachineEmitToFile'') w else w);
          w = (if emit_file_result env codegen \<noteq> 0
               then store_str ''LLVMTargetMachineEmitToFile'' ErrorMessage
                      (Str (emit_file_message env codegen)) w
               else w)
      in (emit_file_result env codegen, w))"

definition LLVMTargetMachineEmitToMemoryBuffer ::
  "env \<Rightarrow> LLVMTargetMachineRef \<Rightarrow> LLVMModuleRef \<Rightarrow> LLVMCodeGenFileType \<Rightarrow> ptr \<Rightarrow> ptr
     \<Rightarrow> world \<Rightarrow> LLVMBool \<times> world" where
  "LLVMTargetMachineEmitToMemoryBuffer env T M codegen ErrorMessage OutMemBuf w =
     (let w = log_event
                (Call (TargetMachineEmitToMemoryBuffer T M codegen ErrorMessage OutMemBuf)) w;
          w = (if T = NullTM
               then undefined_behaviour (BadHandle ''LLVMTargetMachineEmitToMemoryBuffer'') w else w);
          w = (if emit_mem_result env \<noteq> 0
               then store_str ''LLVMTargetMachineEmitToMemoryBuffer'' ErrorMessage
                      (Str (emit_mem_message env)) w
               else store_buf ''LLVMTargetMachineEmitToMemoryBuffer'' OutMemBuf (buffers w)
                      (w\<lparr>buffers := Suc (buffers w)\<rparr>))
      in (emit_mem_result env, w))"

subsection \<open>\<^verbatim>\<open>LLVM-C/Chapter1/sum.c\<close>\<close>

text \<open>
  C leaves open in which order the two \<^verbatim>\<open>LLVMGetParam\<close> arguments of \<^verbatim>\<open>LLVMBuildAdd\<close> are
  evaluated; both only read, and the model takes them left to right. A call of
  \<open>LLVMVerifyModule\<close> that aborts the process does not return, and \<^verbatim>\<open>main\<close> ends there.
  Reaching the closing brace of \<^verbatim>\<open>main\<close> returns 0.
\<close>

definition main_Chapter1 :: "int \<Rightarrow> string list \<Rightarrow> env \<Rightarrow> world" where
  "main_Chapter1 argc argv env =
     (let w = init_world;
          (mod', w) = LLVMModuleCreateWithName ''my_module'' w;
          (t0, w) = LLVMInt32Type w;
          (t1, w) = LLVMInt32Type w;
          param_types = [t0, t1];
          (t2, w) = LLVMInt32Type w;
          (ret_type, w) = LLVMFunctionType t2 param_types 2 0 w;
          (sum, w) = LLVMAddFunction mod' ''sum'' ret_type w;
          (entry, w) = LLVMAppendBasicBlock sum ''entry'' w;
          (builder, w) = LLVMCreateBuilder w;
          w = LLVMPositionBuilderAtEnd builder entry w;
          (p0, w) = LLVMGetParam sum 0 w;
          (p1, w) = LLVMGetParam sum 1 w;
          (tmp, w) = LLVMBuildAdd builder p0 p1 ''tmp'' w;
          (_, w) = LLVMBuildRet builder tmp w;
          w = set_str ''error'' NULL w;
          (verified, w) =
             LLVMVerifyModule env mod' LLVMAbortProcessAction (AddrOf ''error'') w
      in if verified = None then w
         else
           (let (error, w) = get_str ''error'' w;
                w = LLVMDisposeMessage error w;
                (r, w) = LLVMWriteBitcodeToFile env mod' ''sum.bc'' w;
                w = (if r \<noteq> 0
                     then fprintf_stderr ''error writing bitcode to file, skipping\<newline>'' [] w
                     else w);
                w = LLVMDisposeBuilder builder w
            in return_from_main 0 w))"

subsection \<open>\<^verbatim>\<open>LLVM-C/Chapter2/sum.c\<close>\<close>

text \<open>
  \<^verbatim>\<open>targetRef\<close> is a local whose address is passed, so it is a cell, unassigned at its
  declaration. The three \<^verbatim>\<open>char **\<close> variables are declared without initialiser and
  never assigned.
\<close>

definition main_Chapter2 :: "int \<Rightarrow> string list \<Rightarrow> env \<Rightarrow> world" where
  "main_Chapter2 argc argv env =
     (let w = init_world;
          (mod', w) = LLVMModuleCreateWithName ''my_module'' w;
          (t0, w) = LLVMInt32Type w;
          (t1, w) = LLVMInt32Type w;
          param_types = [t0, t1];
          (t2, w) = LLVMInt32Type w;
          (ret_type, w) = LLVMFunctionType t2 param_types 2 0 w;
          (sum, w) = LLVMAddFunction mod' ''sum'' ret_type w;
          (entry, w) = LLVMAppendBasicBlock sum ''entry'' w;
          (builder, w) = LLVMCreateBuilder w;
          w = LLVMPositionBuilderAtEnd builder entry w;
          (p0, w) = LLVMGetParam sum 0 w;
          (p1, w) = LLVMGetParam sum 1 w;
          (tmp, w) = LLVMBuildAdd builder p0 p1 ''tmp'' w;
          (_, w) = LLVMBuildRet builder tmp w;
          triple = ''x86_64'';
          cpu = '''';
          w = printf ''%s\<newline>'' [StrArg (Some (Str triple))] w;
          w = LLVMInitializeAllTargets w;
          w = LLVMInitializeAllTargetMCs w;
          w = LLVMInitializeAllTargetInfos w;
          w = LLVMInitializeAllAsmPrinters w;
          errPtrTriple = Indeterminate;
          (a, w) = read_ptr ''errPtrTriple'' errPtrTriple w;
          (resTriple, w) = LLVMGetTargetFromTriple env triple (AddrOf ''targetRef'') a w;
          w = (if resTriple \<noteq> 0
               then (let (s, w) = deref_str ''errPtrTriple'' errPtrTriple w
                     in printf ''%s\<newline>'' [StrArg s] w)
               else w);
          (targetRef, w) = get_tgt ''targetRef'' w;
          (targetMachineRef, w) =
             LLVMCreateTargetMachine targetRef triple cpu '''' LLVMCodeGenLevelNone
               LLVMRelocDefault LLVMCodeModelDefault w;
          errPtrFileObj = Indeterminate;
          (a, w) = read_ptr ''errPtrFileObj'' errPtrFileObj w;
          (resFileObj, w) =
             LLVMTargetMachineEmitToFile env targetMachineRef mod' ''sum_llvm.o''
               LLVMObjectFile a w;
          w = (if resFileObj \<noteq> 0
               then (let (s, w) = deref_str ''errPtrFileObj'' errPtrFileObj w
                     in printf ''%s\<newline>'' [StrArg s] w)
               else w);
          errPtrFileAsm = Indeterminate;
          (a, w) = read_ptr ''errPtrFileAsm'' errPtrFileAsm w;
          (resFileAsm, w) =
             LLVMTargetMachineEmitToFile env targetMachineRef mod' ''sum_llvm.asm''
               LLVMAssemblyFile a w;
          w = (if resFileAsm \<noteq> 0
               then (let (s, w) = deref_str ''errPtrFileAsm'' errPtrFileAsm w
                     in printf ''%s\<newline>'' [StrArg s] w)
               else w);
          w = set_str ''error'' NULL w;
          (verified, w) =
             LLVMVerifyModule env mod' LLVMAbortProcessAction (AddrOf ''error'') w
      in if verified = None then w
         else
           (let (error, w) = get_str ''error'' w;
                w = LLVMDisposeMessage error w;
                w = LLVMDisposeBuilder builder w
            in return_from_main 0 w))"

subsection \<open>\<^verbatim>\<open>LLVM-C/sum.c\<close>\<close>

text \<open>
  Here \<^verbatim>\<open>targetRef\<close> is itself a pointer (\<^verbatim>\<open>LLVMTargetRef *\<close>), declared without
  initialiser like the three \<^verbatim>\<open>char **\<close> variables. \<^verbatim>\<open>mem\<close> has its address passed, so
  it is a cell. The results of the two emitting calls are dropped.
\<close>

definition main_toplevel :: "int \<Rightarrow> string list \<Rightarrow> env \<Rightarrow> world" where
  "main_toplevel argc argv env =
     (let w = init_world;
          (mod', w) = LLVMModuleCreateWithName ''my_module'' w;
          (t0, w) = LLVMInt32Type w;
          (t1, w) = LLVMInt32Type w;
          param_types = [t0, t1];
          (t2, w) = LLVMInt32Type w;
          (ret_type, w) = LLVMFunctionType t2 param_types 2 0 w;
          (sum, w) = LLVMAddFunction mod' ''sum'' ret_type w;
          (entry, w) = LLVMAppendBasicBlock sum ''entry'' w;
          (builder, w) = LLVMCreateBuilder w;
          w = LLVMPositionBuilderAtEnd builder entry w;
          (p0, w) = LLVMGetParam sum 0 w;
          (p1, w) = LLVMGetParam sum 1 w;
          (tmp, w) = LLVMBuildAdd builder p0 p1 ''tmp'' w;
          (_, w) = LLVMBuildRet builder tmp w;
          w = set_str ''error'' NULL w;
          (verified, w) =
             LLVMVerifyModule env mod' LLVMAbortProcessAction (AddrOf ''error'') w
      in if verified = None then w
         else
           (let (error, w) = get_str ''error'' w;
                w = LLVMDisposeMessage error w;
                (r, w) = LLVMWriteBitcodeToFile env mod' ''sum.bc'' w;
                w = (if r \<noteq> 0
                     then fprintf_stderr ''error writing bitcode to file, skipping\<newline>'' [] w
                     else w);
                (mem, w) = LLVMWriteBitcodeToMemoryBuffer mod' w;
                w = set_buf ''mem'' mem w;
                triple = ''x86_64'';
                cpu = '''';
                w = printf ''%s\<newline>'' [StrArg (Some (Str triple))] w;
                targetRef = Indeterminate;
                errPtrTriple = Indeterminate;
                (a, w) = read_ptr ''targetRef'' targetRef w;
                (b, w) = read_ptr ''errPtrTriple'' errPtrTriple w;
                (res, w) = LLVMGetTargetFromTriple env triple a b w;
                w = (if res = 1
                     then (let (s, w) = deref_str ''errPtrTriple'' errPtrTriple w
                           in printf ''%s\<newline>'' [StrArg s] w)
                     else w);
                w = printf ''%d\<newline>'' [IntArg (sint res)] w;
                (t, w) = deref_tgt ''targetRef'' targetRef w;
                (targetMachineRef, w) =
                   LLVMCreateTargetMachine t triple cpu '''' LLVMCodeGenLevelNone
                     LLVMRelocDefault LLVMCodeModelDefault w;
                errPtrFile = Indeterminate;
                (a, w) = read_ptr ''errPtrFile'' errPtrFile w;
                (_, w) =
                   LLVMTargetMachineEmitToFile env targetMachineRef mod' ''spec_sum.bc''
                     LLVMObjectFile a w;
                errPtrMem = Indeterminate;
                (a, w) = read_ptr ''errPtrMem'' errPtrMem w;
                (_, w) =
                   LLVMTargetMachineEmitToMemoryBuffer env targetMachineRef mod'
                     LLVMObjectFile a (AddrOf ''mem'') w;
                w = LLVMDisposeBuilder builder w
            in return_from_main 0 w))"

subsection \<open>Running the function that was built\<close>

text \<open>
  The two instructions the programs build, on 32-bit integers: \<^verbatim>\<open>add\<close> wraps around,
  \<^verbatim>\<open>ret\<close> ends the block with its operand. An operand is a parameter of the function
  being run or the result of an earlier instruction of the block.
\<close>

fun operand ::
  "LLVMModuleRef \<Rightarrow> nat \<Rightarrow> nat \<Rightarrow> 32 word list \<Rightarrow> 32 word list \<Rightarrow> LLVMValueRef
     \<Rightarrow> 32 word option" where
  "operand M F K args vals (ParamV M' F' i) =
     (if M' = M \<and> F' = F \<and> i < length args then Some (args ! i) else None)"
| "operand M F K args vals (InstV M' F' K' j) =
     (if M' = M \<and> F' = F \<and> K' = K \<and> j < length vals then Some (vals ! j) else None)"
| "operand M F K args vals (FunctionV M' F') = None"
| "operand M F K args vals NullV = None"

fun run_block ::
  "LLVMModuleRef \<Rightarrow> nat \<Rightarrow> nat \<Rightarrow> 32 word list \<Rightarrow> instruction list \<Rightarrow> 32 word list
     \<Rightarrow> 32 word option" where
  "run_block M F K args [] vals = None"
| "run_block M F K args (AddInst n l r # is) vals =
     (case (operand M F K args vals l, operand M F K args vals r) of
        (Some x, Some y) \<Rightarrow> run_block M F K args is (vals @ [x + y])
      | _ \<Rightarrow> None)"
| "run_block M F K args (RetInst v # is) vals = operand M F K args vals v"

definition run_function ::
  "LLVMModule list \<Rightarrow> LLVMModuleRef \<Rightarrow> nat \<Rightarrow> 32 word list \<Rightarrow> 32 word option" where
  "run_function ms M F args =
     (if M < length ms \<and> F < length (mod_functions (ms ! M))
      then (let f = mod_functions (ms ! M) ! F
            in if length args = param_count (fn_type f)
               then (case fn_blocks f of
                       [] \<Rightarrow> None
                     | b # _ \<Rightarrow> run_block M F 0 args (bb_insts b) [])
               else None)
      else None)"

subsection \<open>Observations on a run\<close>

fun lib_calls :: "event list \<Rightarrow> llvm_call list" where
  "lib_calls [] = []"
| "lib_calls (Call c # es) = c # lib_calls es"
| "lib_calls (Stdout fmt args # es) = lib_calls es"
| "lib_calls (Stderr fmt args # es) = lib_calls es"

fun stdout_of :: "event list \<Rightarrow> (string \<times> printf_arg list) list" where
  "stdout_of [] = []"
| "stdout_of (Stdout fmt args # es) = (fmt, args) # stdout_of es"
| "stdout_of (Call c # es) = stdout_of es"
| "stdout_of (Stderr fmt args # es) = stdout_of es"

fun stderr_of :: "event list \<Rightarrow> (string \<times> printf_arg list) list" where
  "stderr_of [] = []"
| "stderr_of (Stderr fmt args # es) = (fmt, args) # stderr_of es"
| "stderr_of (Call c # es) = stderr_of es"
| "stderr_of (Stdout fmt args # es) = stderr_of es"

text \<open>The calls that emit the module, and the call that verifies it.\<close>

definition emitting :: "llvm_call \<Rightarrow> bool" where
  "emitting c =
     (case c of
        WriteBitcodeToFile M p \<Rightarrow> True
      | WriteBitcodeToMemoryBuffer M \<Rightarrow> True
      | TargetMachineEmitToFile T M f g e \<Rightarrow> True
      | TargetMachineEmitToMemoryBuffer T M g e b \<Rightarrow> True
      | _ \<Rightarrow> False)"

definition verifying :: "llvm_call \<Rightarrow> bool" where
  "verifying c = (case c of VerifyModule M a p \<Rightarrow> True | _ \<Rightarrow> False)"

text \<open>
  \<open>verified_first seen cs\<close>: no emission of \<open>cs\<close> comes before a verification, where
  \<open>seen\<close> tells whether one came before \<open>cs\<close>.
\<close>

fun verified_first :: "bool \<Rightarrow> llvm_call list \<Rightarrow> bool" where
  "verified_first seen [] = True"
| "verified_first seen (c # cs) =
     (if emitting c then seen \<and> verified_first seen cs
      else verified_first (seen \<or> verifying c) cs)"

text \<open>The file names and the target triples passed to the library.\<close>

definition file_name :: "llvm_call \<Rightarrow> string list" where
  "file_name c =
     (case c of
        WriteBitcodeToFile M p \<Rightarrow> [p]
      | TargetMachineEmitToFile T M f g e \<Rightarrow> [f]
      | _ \<Rightarrow> [])"

definition file_names :: "llvm_call list \<Rightarrow> string list" where
  "file_names cs = concat (map file_name cs)"

definition triple_of :: "llvm_call \<Rightarrow> string list" where
  "triple_of c =
     (case c of
        GetTargetFromTriple t T e \<Rightarrow> [t]
      | CreateTargetMachine T t cpu fs l r m \<Rightarrow> [t]
      | _ \<Rightarrow> [])"

definition triples :: "llvm_call list \<Rightarrow> string list" where
  "triples cs = concat (map triple_of cs)"

text \<open>What is printed between the target lookup and the next library call.\<close>

definition is_call :: "event \<Rightarrow> bool" where
  "is_call e = (case e of Call c \<Rightarrow> True | _ \<Rightarrow> False)"

definition is_lookup :: "event \<Rightarrow> bool" where
  "is_lookup e = (case e of Call (GetTargetFromTriple t T m) \<Rightarrow> True | _ \<Rightarrow> False)"

definition printed_after_lookup :: "event list \<Rightarrow> event list" where
  "printed_after_lookup es =
     takeWhile (\<lambda>e. \<not> is_call e) (drop 1 (dropWhile (\<lambda>e. \<not> is_lookup e) es))"

text \<open>
  The run that the process really makes: the events up to the first undefined
  behaviour, all of them when there is none.
\<close>

definition real_trace :: "world \<Rightarrow> event list" where
  "real_trace w =
     (case undefined_from w of
        None \<Rightarrow> trace w
      | Some n \<Rightarrow> take n (trace w))"

text \<open>
  The last statement of each \<^verbatim>\<open>main\<close> is \<^verbatim>\<open>LLVMDisposeBuilder(builder)\<close>: a run reached
  the end of \<^verbatim>\<open>main\<close> when it met no undefined behaviour and that call is its last
  event.
\<close>

definition reached_end :: "world \<Rightarrow> bool" where
  "reached_end w =
     (undefined_from w = None \<and>
      (case rev (trace w) of
         Call (DisposeBuilder B) # _ \<Rightarrow> True
       | _ \<Rightarrow> False))"

text \<open>The calls of lines 20 to 34, which the three programs share.\<close>

definition build_calls :: "event list" where
  "build_calls =
     [Call (ModuleCreateWithName ''my_module''), Call Int32Type, Call Int32Type,
      Call Int32Type, Call (FunctionType Int32Ty [Int32Ty, Int32Ty] 2 0),
      Call (AddFunction 0 ''sum'' (FunctionTy Int32Ty [Int32Ty, Int32Ty] False)),
      Call (AppendBasicBlock (FunctionV 0 0) ''entry''), Call CreateBuilder,
      Call (PositionBuilderAtEnd 0 (BlockRef 0 0 0)),
      Call (GetParam (FunctionV 0 0) 0), Call (GetParam (FunctionV 0 0) 1),
      Call (BuildAdd 0 (ParamV 0 0 0) (ParamV 0 0 1) ''tmp''),
      Call (BuildRet 0 (InstV 0 0 0 0))]"

text \<open>A library for which every call succeeds, and the target it finds.\<close>

definition env0 :: env where
  "env0 =
     \<lparr>verify_result = 0, verify_messages = '''', write_bitcode_result = 0,
      get_target_result = 0, get_target_out = Target ''x86-64'',
      get_target_message = '''', emit_file_result = (\<lambda>_. 0),
      emit_file_message = (\<lambda>_. ''''), emit_mem_result = 0, emit_mem_message = ''''\<rparr>"

text \<open>A library that finds no target for the triple: result 1 and a null target.\<close>

definition env_no_target :: env where
  "env_no_target =
     env0\<lparr>get_target_result := 1, get_target_out := NullTarget,
          get_target_message := ''No available targets are compatible with triple''\<rparr>"

text \<open>The target machine of Chapter2: null when the lookup stored a null target.\<close>

definition machine_of :: "env \<Rightarrow> LLVMTargetMachineRef" where
  "machine_of env = (case get_target_out env of NullTarget \<Rightarrow> NullTM | Target t \<Rightarrow> TM 0)"

text \<open>
  What the header comment of each file announces, \<^verbatim>\<open>int sum(int a, int b) { return a + b; }\<close>,
  as a module of the library: one function \<open>sum\<close> of two 32-bit integers to a 32-bit
  integer, not variadic, whose block \<open>entry\<close> adds the parameters and returns the sum.
\<close>

definition expected_sum_module :: LLVMModule where
  "expected_sum_module =
     \<lparr>mod_name = ''my_module'',
      mod_functions =
        [\<lparr>fn_name = ''sum'', fn_type = FunctionTy Int32Ty [Int32Ty, Int32Ty] False,
          fn_blocks =
            [\<lparr>bb_name = ''entry'',
              bb_insts = [AddInst ''tmp'' (ParamV 0 0 0) (ParamV 0 0 1),
                          RetInst (InstV 0 0 0 0)]\<rparr>]\<rparr>]\<rparr>"

section \<open>Properties\<close>

subsection \<open>Computing the runs\<close>

text \<open>
  The library functions are unfolded only when they are applied to a world that is
  written out, so that a run is computed call by call from \<open>init_world\<close>.
\<close>

abbreviation (input) explicit_world ::
  "LLVMModule list \<Rightarrow> builder_state list \<Rightarrow> nat \<Rightarrow> nat \<Rightarrow> (string \<Rightarrow> c_str option)
     \<Rightarrow> (string \<Rightarrow> LLVMTargetRef option) \<Rightarrow> (string \<Rightarrow> LLVMMemoryBufferRef option)
     \<Rightarrow> event list \<Rightarrow> fault list \<Rightarrow> proc_status \<Rightarrow> nat option \<Rightarrow> world" where
  "explicit_world ms bs mc bf sc tc bc tr fl st uf \<equiv>
     \<lparr>modules = ms, builders = bs, machines = mc, buffers = bf, str_cells = sc,
      tgt_cells = tc, buf_cells = bc, trace = tr, faults = fl, status = st,
      undefined_from = uf\<rparr>"

lemmas lib_evals =
  LLVMModuleCreateWithName_def [where w = "explicit_world ms bs mc bf sc tc bc tr fl st uf"]
  LLVMInt32Type_def [where w = "explicit_world ms bs mc bf sc tc bc tr fl st uf"]
  LLVMFunctionType_def [where w = "explicit_world ms bs mc bf sc tc bc tr fl st uf"]
  LLVMAddFunction_def [where w = "explicit_world ms bs mc bf sc tc bc tr fl st uf"]
  LLVMAppendBasicBlock_def [where w = "explicit_world ms bs mc bf sc tc bc tr fl st uf"]
  LLVMCreateBuilder_def [where w = "explicit_world ms bs mc bf sc tc bc tr fl st uf"]
  LLVMPositionBuilderAtEnd_def [where w = "explicit_world ms bs mc bf sc tc bc tr fl st uf"]
  LLVMGetParam_def [where w = "explicit_world ms bs mc bf sc tc bc tr fl st uf"]
  insert_inst_def [where w = "explicit_world ms bs mc bf sc tc bc tr fl st uf"]
  LLVMBuildAdd_def [where w = "explicit_world ms bs mc bf sc tc bc tr fl st uf"]
  LLVMBuildRet_def [where w = "explicit_world ms bs mc bf sc tc bc tr fl st uf"]
  LLVMDisposeBuilder_def [where w = "explicit_world ms bs mc bf sc tc bc tr fl st uf"]
  LLVMVerifyModule_def [where w = "explicit_world ms bs mc bf sc tc bc tr fl st uf"]
  LLVMDisposeMessage_def [where w = "explicit_world ms bs mc bf sc tc bc tr fl st uf"]
  LLVMWriteBitcodeToFile_def [where w = "explicit_world ms bs mc bf sc tc bc tr fl st uf"]
  LLVMWriteBitcodeToMemoryBuffer_def [where w = "explicit_world ms bs mc bf sc tc bc tr fl st uf"]
  LLVMInitializeAllTargets_def [where w = "explicit_world ms bs mc bf sc tc bc tr fl st uf"]
  LLVMInitializeAllTargetMCs_def [where w = "explicit_world ms bs mc bf sc tc bc tr fl st uf"]
  LLVMInitializeAllTargetInfos_def [where w = "explicit_world ms bs mc bf sc tc bc tr fl st uf"]
  LLVMInitializeAllAsmPrinters_def [where w = "explicit_world ms bs mc bf sc tc bc tr fl st uf"]
  LLVMGetTargetFromTriple_def [where w = "explicit_world ms bs mc bf sc tc bc tr fl st uf"]
  LLVMCreateTargetMachine_def [where w = "explicit_world ms bs mc bf sc tc bc tr fl st uf"]
  LLVMTargetMachineEmitToFile_def [where w = "explicit_world ms bs mc bf sc tc bc tr fl st uf"]
  LLVMTargetMachineEmitToMemoryBuffer_def [where w = "explicit_world ms bs mc bf sc tc bc tr fl st uf"]
  log_event_def [where w = "explicit_world ms bs mc bf sc tc bc tr fl st uf"]
  log_fault_def [where w = "explicit_world ms bs mc bf sc tc bc tr fl st uf"]
  undefined_behaviour_def [where w = "explicit_world ms bs mc bf sc tc bc tr fl st uf"]
  return_from_main_def [where w = "explicit_world ms bs mc bf sc tc bc tr fl st uf"]
  printf_def [where w = "explicit_world ms bs mc bf sc tc bc tr fl st uf"]
  fprintf_stderr_def [where w = "explicit_world ms bs mc bf sc tc bc tr fl st uf"]
  set_str_def [where w = "explicit_world ms bs mc bf sc tc bc tr fl st uf"]
  set_tgt_def [where w = "explicit_world ms bs mc bf sc tc bc tr fl st uf"]
  set_buf_def [where w = "explicit_world ms bs mc bf sc tc bc tr fl st uf"]
  get_str_def [where w = "explicit_world ms bs mc bf sc tc bc tr fl st uf"]
  get_tgt_def [where w = "explicit_world ms bs mc bf sc tc bc tr fl st uf"]
  read_ptr_def [where w = "explicit_world ms bs mc bf sc tc bc tr fl st uf"]
  deref_str_def [where w = "explicit_world ms bs mc bf sc tc bc tr fl st uf"]
  deref_tgt_def [where w = "explicit_world ms bs mc bf sc tc bc tr fl st uf"]
  store_str_def [where w = "explicit_world ms bs mc bf sc tc bc tr fl st uf"]
  store_tgt_def [where w = "explicit_world ms bs mc bf sc tc bc tr fl st uf"]
  store_buf_def [where w = "explicit_world ms bs mc bf sc tc bc tr fl st uf"]
  valid_function_def valid_block_def live_builder_def param_count_def map_at_def
  init_world_def
  for ms bs mc bf sc tc bc tr fl st uf

lemma world_if:
  "(if c then \<lparr>modules = a1, builders = b1, machines = c1, buffers = d1, str_cells = e1,
                tgt_cells = f1, buf_cells = g1, trace = h1, faults = i1, status = j1,
                undefined_from = k1\<rparr>
    else \<lparr>modules = a2, builders = b2, machines = c2, buffers = d2, str_cells = e2,
                tgt_cells = f2, buf_cells = g2, trace = h2, faults = i2, status = j2,
                undefined_from = k2\<rparr>) =
   \<lparr>modules = (if c then a1 else a2), builders = (if c then b1 else b2),
    machines = (if c then c1 else c2), buffers = (if c then d1 else d2),
    str_cells = (if c then e1 else e2), tgt_cells = (if c then f1 else f2),
    buf_cells = (if c then g1 else g2), trace = (if c then h1 else h2),
    faults = (if c then i1 else i2), status = (if c then j1 else j2),
    undefined_from = (if c then k1 else k2)\<rparr>"
  by simp

lemma modules_Chapter1: "modules (main_Chapter1 argc argv env) = [expected_sum_module]"
  by (cases "verify_result env = 0")
     (simp_all add: main_Chapter1_def lib_evals Let_def world_if expected_sum_module_def
        cong: if_cong)

lemma modules_Chapter2: "modules (main_Chapter2 argc argv env) = [expected_sum_module]"
  by (cases "verify_result env = 0"; cases "get_target_out env")
     (simp_all add: main_Chapter2_def lib_evals Let_def world_if expected_sum_module_def
        cong: if_cong)

lemma modules_toplevel: "modules (main_toplevel argc argv env) = [expected_sum_module]"
  by (cases "verify_result env = 0")
     (simp_all add: main_toplevel_def lib_evals Let_def world_if expected_sum_module_def
        cong: if_cong)

lemma trace_Chapter1:
  "trace (main_Chapter1 argc argv env) =
     build_calls @
     [Call (VerifyModule 0 LLVMAbortProcessAction (AddrOf ''error''))] @
     (if verify_result env \<noteq> 0 then []
      else [Call (DisposeMessage (Some (Str (verify_messages env)))),
            Call (WriteBitcodeToFile 0 ''sum.bc'')] @
           (if write_bitcode_result env \<noteq> 0
            then [Stderr ''error writing bitcode to file, skipping\<newline>'' []] else []) @
           [Call (DisposeBuilder 0)])"
  by (cases "verify_result env = 0")
     (simp_all add: main_Chapter1_def lib_evals Let_def world_if build_calls_def
        cong: if_cong)

lemma trace_Chapter2:
  "trace (main_Chapter2 argc argv env) =
     build_calls @
     [Stdout ''%s\<newline>'' [StrArg (Some (Str ''x86_64''))],
      Call InitializeAllTargets, Call InitializeAllTargetMCs,
      Call InitializeAllTargetInfos, Call InitializeAllAsmPrinters,
      Call (GetTargetFromTriple ''x86_64'' (AddrOf ''targetRef'') Indeterminate)] @
     (if get_target_result env \<noteq> 0 then [Stdout ''%s\<newline>'' [StrArg None]] else []) @
     [Call (CreateTargetMachine (Some (get_target_out env)) ''x86_64'' '''' ''''
              LLVMCodeGenLevelNone LLVMRelocDefault LLVMCodeModelDefault),
      Call (TargetMachineEmitToFile (machine_of env) 0 ''sum_llvm.o'' LLVMObjectFile
              Indeterminate)] @
     (if emit_file_result env LLVMObjectFile \<noteq> 0
      then [Stdout ''%s\<newline>'' [StrArg None]] else []) @
     [Call (TargetMachineEmitToFile (machine_of env) 0 ''sum_llvm.asm'' LLVMAssemblyFile
              Indeterminate)] @
     (if emit_file_result env LLVMAssemblyFile \<noteq> 0
      then [Stdout ''%s\<newline>'' [StrArg None]] else []) @
     [Call (VerifyModule 0 LLVMAbortProcessAction (AddrOf ''error''))] @
     (if verify_result env \<noteq> 0 then []
      else [Call (DisposeMessage (Some (Str (verify_messages env)))),
            Call (DisposeBuilder 0)])"
  by (cases "verify_result env = 0"; cases "get_target_out env")
     (simp_all add: main_Chapter2_def lib_evals Let_def world_if build_calls_def
        machine_of_def cong: if_cong)

lemma trace_toplevel:
  "trace (main_toplevel argc argv env) =
     build_calls @
     [Call (VerifyModule 0 LLVMAbortProcessAction (AddrOf ''error''))] @
     (if verify_result env \<noteq> 0 then []
      else [Call (DisposeMessage (Some (Str (verify_messages env)))),
            Call (WriteBitcodeToFile 0 ''sum.bc'')] @
           (if write_bitcode_result env \<noteq> 0
            then [Stderr ''error writing bitcode to file, skipping\<newline>'' []] else []) @
           [Call (WriteBitcodeToMemoryBuffer 0),
            Stdout ''%s\<newline>'' [StrArg (Some (Str ''x86_64''))],
            Call (GetTargetFromTriple ''x86_64'' Indeterminate Indeterminate)] @
           (if get_target_result env = 1 then [Stdout ''%s\<newline>'' [StrArg None]] else []) @
           [Stdout ''%d\<newline>'' [IntArg (sint (get_target_result env))],
            Call (CreateTargetMachine None ''x86_64'' '''' ''''
                    LLVMCodeGenLevelNone LLVMRelocDefault LLVMCodeModelDefault),
            Call (TargetMachineEmitToFile NullTM 0 ''spec_sum.bc'' LLVMObjectFile
                    Indeterminate),
            Call (TargetMachineEmitToMemoryBuffer NullTM 0 LLVMObjectFile Indeterminate
                    (AddrOf ''mem'')),
            Call (DisposeBuilder 0)])"
  by (cases "verify_result env = 0")
     (simp_all add: main_toplevel_def lib_evals Let_def world_if build_calls_def
        cong: if_cong)

lemma status_Chapter1:
  "status (main_Chapter1 argc argv env) =
     (if verify_result env \<noteq> 0 then Aborted else Exited 0)"
  by (cases "verify_result env = 0")
     (simp_all add: main_Chapter1_def lib_evals Let_def world_if cong: if_cong)

lemma status_Chapter2:
  "status (main_Chapter2 argc argv env) =
     (if get_target_result env \<noteq> 0 \<or> get_target_out env = NullTarget \<or>
         emit_file_result env LLVMObjectFile \<noteq> 0 \<or>
         emit_file_result env LLVMAssemblyFile \<noteq> 0
      then Undefined
      else if verify_result env \<noteq> 0 then Aborted else Exited 0)"
  by (cases "verify_result env = 0"; cases "get_target_out env")
     (simp_all add: main_Chapter2_def lib_evals Let_def world_if cong: if_cong)

lemma status_toplevel:
  "status (main_toplevel argc argv env) =
     (if verify_result env \<noteq> 0 then Aborted else Undefined)"
  by (cases "verify_result env = 0")
     (simp_all add: main_toplevel_def lib_evals Let_def world_if cong: if_cong)

lemma faults_Chapter1: "faults (main_Chapter1 argc argv env) = []"
  by (cases "verify_result env = 0")
     (simp_all add: main_Chapter1_def lib_evals Let_def world_if cong: if_cong)

lemma faults_Chapter2:
  "faults (main_Chapter2 argc argv env) =
     [UninitRead ''errPtrTriple''] @
     (if get_target_result env \<noteq> 0
      then [WildStore ''LLVMGetTargetFromTriple'', UninitDeref ''errPtrTriple''] else []) @
     (if get_target_out env = NullTarget then [BadHandle ''LLVMCreateTargetMachine'']
      else []) @
     [UninitRead ''errPtrFileObj''] @
     (if get_target_out env = NullTarget then [BadHandle ''LLVMTargetMachineEmitToFile'']
      else []) @
     (if emit_file_result env LLVMObjectFile \<noteq> 0
      then [WildStore ''LLVMTargetMachineEmitToFile'', UninitDeref ''errPtrFileObj'']
      else []) @
     [UninitRead ''errPtrFileAsm''] @
     (if get_target_out env = NullTarget then [BadHandle ''LLVMTargetMachineEmitToFile'']
      else []) @
     (if emit_file_result env LLVMAssemblyFile \<noteq> 0
      then [WildStore ''LLVMTargetMachineEmitToFile'', UninitDeref ''errPtrFileAsm'']
      else [])"
  by (cases "verify_result env = 0"; cases "get_target_out env")
     (simp_all add: main_Chapter2_def lib_evals Let_def world_if cong: if_cong)

lemma faults_toplevel:
  "faults (main_toplevel argc argv env) =
     (if verify_result env \<noteq> 0 then []
      else [UninitRead ''targetRef'', UninitRead ''errPtrTriple'',
            WildStore ''LLVMGetTargetFromTriple''] @
           (if get_target_result env \<noteq> 0 then [WildStore ''LLVMGetTargetFromTriple'']
            else []) @
           (if get_target_result env = 1 then [UninitDeref ''errPtrTriple''] else []) @
           [UninitDeref ''targetRef'', BadHandle ''LLVMCreateTargetMachine'',
            UninitRead ''errPtrFile'', BadHandle ''LLVMTargetMachineEmitToFile''] @
           (if emit_file_result env LLVMObjectFile \<noteq> 0
            then [WildStore ''LLVMTargetMachineEmitToFile''] else []) @
           [UninitRead ''errPtrMem'', BadHandle ''LLVMTargetMachineEmitToMemoryBuffer''] @
           (if emit_mem_result env \<noteq> 0
            then [WildStore ''LLVMTargetMachineEmitToMemoryBuffer''] else []))"
  by (cases "verify_result env = 0")
     (simp_all add: main_toplevel_def lib_evals Let_def world_if cong: if_cong)

lemma builders_Chapter1:
  "builders (main_Chapter1 argc argv env) =
     (if verify_result env \<noteq> 0 then [At (BlockRef 0 0 0)] else [Disposed])"
  by (cases "verify_result env = 0")
     (simp_all add: main_Chapter1_def lib_evals Let_def world_if cong: if_cong)

text \<open>The runs that the processes really make.\<close>

lemma real_trace_Chapter1:
  "real_trace (main_Chapter1 argc argv env) = trace (main_Chapter1 argc argv env)"
  by (cases "verify_result env = 0")
     (simp_all add: real_trace_def main_Chapter1_def lib_evals Let_def world_if
        cong: if_cong)

lemma real_trace_Chapter2:
  "real_trace (main_Chapter2 argc argv env) =
     build_calls @
     [Stdout ''%s\<newline>'' [StrArg (Some (Str ''x86_64''))],
      Call InitializeAllTargets, Call InitializeAllTargetMCs,
      Call InitializeAllTargetInfos, Call InitializeAllAsmPrinters,
      Call (GetTargetFromTriple ''x86_64'' (AddrOf ''targetRef'') Indeterminate)] @
     (if get_target_result env \<noteq> 0 then []
      else [Call (CreateTargetMachine (Some (get_target_out env)) ''x86_64'' '''' ''''
                    LLVMCodeGenLevelNone LLVMRelocDefault LLVMCodeModelDefault)] @
           (if get_target_out env = NullTarget then []
            else [Call (TargetMachineEmitToFile (TM 0) 0 ''sum_llvm.o'' LLVMObjectFile
                          Indeterminate)] @
                 (if emit_file_result env LLVMObjectFile \<noteq> 0 then []
                  else [Call (TargetMachineEmitToFile (TM 0) 0 ''sum_llvm.asm''
                                LLVMAssemblyFile Indeterminate)] @
                       (if emit_file_result env LLVMAssemblyFile \<noteq> 0 then []
                        else [Call (VerifyModule 0 LLVMAbortProcessAction
                                      (AddrOf ''error''))] @
                             (if verify_result env \<noteq> 0 then []
                              else [Call (DisposeMessage
                                            (Some (Str (verify_messages env)))),
                                    Call (DisposeBuilder 0)])))))"
  by (cases "verify_result env = 0"; cases "get_target_out env")
     (simp_all add: real_trace_def main_Chapter2_def lib_evals Let_def world_if
        build_calls_def cong: if_cong)

lemma real_trace_toplevel:
  "real_trace (main_toplevel argc argv env) =
     build_calls @
     [Call (VerifyModule 0 LLVMAbortProcessAction (AddrOf ''error''))] @
     (if verify_result env \<noteq> 0 then []
      else [Call (DisposeMessage (Some (Str (verify_messages env)))),
            Call (WriteBitcodeToFile 0 ''sum.bc'')] @
           (if write_bitcode_result env \<noteq> 0
            then [Stderr ''error writing bitcode to file, skipping\<newline>'' []] else []) @
           [Call (WriteBitcodeToMemoryBuffer 0),
            Stdout ''%s\<newline>'' [StrArg (Some (Str ''x86_64''))],
            Call (GetTargetFromTriple ''x86_64'' Indeterminate Indeterminate)])"
  by (cases "verify_result env = 0")
     (simp_all add: real_trace_def main_toplevel_def lib_evals Let_def world_if
        build_calls_def cong: if_cong)

lemma reached_end_Chapter1:
  "reached_end (main_Chapter1 argc argv env) \<longleftrightarrow> verify_result env = 0"
  by (cases "verify_result env = 0")
     (simp_all add: reached_end_def main_Chapter1_def lib_evals Let_def world_if
        cong: if_cong)

lemma reached_end_Chapter2:
  "reached_end (main_Chapter2 argc argv env) \<longleftrightarrow>
     get_target_result env = 0 \<and> get_target_out env \<noteq> NullTarget \<and>
     emit_file_result env LLVMObjectFile = 0 \<and>
     emit_file_result env LLVMAssemblyFile = 0 \<and> verify_result env = 0"
  by (cases "verify_result env = 0"; cases "get_target_out env")
     (simp_all add: reached_end_def main_Chapter2_def lib_evals Let_def world_if
        cong: if_cong)

lemma reached_end_toplevel: "\<not> reached_end (main_toplevel argc argv env)"
  by (cases "verify_result env = 0")
     (simp_all add: reached_end_def main_toplevel_def lib_evals Let_def world_if
        cong: if_cong)

subsection \<open>The function built\<close>

lemma run_expected_sum_module:
  "run_function [expected_sum_module] 0 0 [a, b] = Some (a + b)"
  by (simp add: run_function_def expected_sum_module_def param_count_def)

text \<open>
  C1. Each of the three programs builds one module, named \<open>my_module\<close>, that holds one
  function, named \<open>sum\<close>, of type (i32, i32) to i32 and not variadic, with the single
  block \<open>entry\<close>, which returns the sum of parameter 0 and parameter 1: run on two
  32-bit integers, the function returns their sum (modulo \<open>2 ^ 32\<close>).
\<close>

theorem sum_function_built:
  "modules (main_Chapter1 argc argv env) = [expected_sum_module] \<and>
   modules (main_Chapter2 argc argv env) = [expected_sum_module] \<and>
   modules (main_toplevel argc argv env) = [expected_sum_module] \<and>
   mod_name expected_sum_module = ''my_module'' \<and>
   map fn_name (mod_functions expected_sum_module) = [''sum''] \<and>
   map fn_type (mod_functions expected_sum_module) =
     [FunctionTy Int32Ty [Int32Ty, Int32Ty] False] \<and>
   map (\<lambda>f. map bb_name (fn_blocks f)) (mod_functions expected_sum_module) =
     [ [''entry''] ] \<and>
   run_function (modules (main_Chapter1 argc argv env)) 0 0 [a, b] = Some (a + b) \<and>
   run_function (modules (main_Chapter2 argc argv env)) 0 0 [a, b] = Some (a + b) \<and>
   run_function (modules (main_toplevel argc argv env)) 0 0 [a, b] = Some (a + b)"
  by (simp add: modules_Chapter1 modules_Chapter2 modules_toplevel run_expected_sum_module)
     (simp add: expected_sum_module_def)

theorem sum_function_built_witness:
  "modules (main_Chapter2 0 [] env0) = [expected_sum_module] \<and>
   run_function (modules (main_Chapter2 0 [] env0)) 0 0 [2147483647, 1] = Some 2147483648"
proof -
  note built = sum_function_built [of 0 "[]" env0 2147483647 1]
  from built have "modules (main_Chapter2 0 [] env0) = [expected_sum_module]"
    by blast
  moreover from built have
    "run_function (modules (main_Chapter2 0 [] env0)) 0 0 [2147483647, 1] =
       Some (2147483647 + 1)"
    by blast
  ultimately show ?thesis
    by simp
qed

subsection \<open>Verification and emission\<close>

text \<open>
  C2. The claim is that every program verifies the module before any emission. Chapter2's
  program does not: against a library for which every call succeeds, it emits before it
  has verified.
\<close>

theorem verification_first_counterexample:
  "\<not> verified_first False (lib_calls (trace (main_Chapter2 0 [] env0)))"
  by (simp add: trace_Chapter2 build_calls_def emitting_def verifying_def)

text \<open>
  C2, amended. Chapter1's program and the top-level program call \<open>LLVMVerifyModule\<close>
  before any call that emits. Chapter2's program calls \<open>LLVMTargetMachineEmitToFile\<close>
  twice, for the object file and for the assembly file, and verifies the module after
  that.
\<close>

theorem verification_and_emission_order:
  "verified_first False (lib_calls (trace (main_Chapter1 argc argv env))) \<and>
   verified_first False (lib_calls (trace (main_toplevel argc argv env))) \<and>
   filter (\<lambda>c. emitting c \<or> verifying c) (lib_calls (trace (main_Chapter2 argc argv env))) =
     [TargetMachineEmitToFile (machine_of env) 0 ''sum_llvm.o'' LLVMObjectFile
        Indeterminate,
      TargetMachineEmitToFile (machine_of env) 0 ''sum_llvm.asm'' LLVMAssemblyFile
        Indeterminate,
      VerifyModule 0 LLVMAbortProcessAction (AddrOf ''error'')]"
  by (simp add: trace_Chapter1 trace_Chapter2 trace_toplevel build_calls_def emitting_def
        verifying_def)

theorem verification_and_emission_order_witness:
  "verified_first False (lib_calls (trace (main_Chapter1 0 [] env0))) \<and>
   verified_first False (lib_calls (trace (main_toplevel 0 [] env0))) \<and>
   filter (\<lambda>c. emitting c \<or> verifying c) (lib_calls (trace (main_Chapter2 0 [] env0))) =
     [TargetMachineEmitToFile (TM 0) 0 ''sum_llvm.o'' LLVMObjectFile Indeterminate,
      TargetMachineEmitToFile (TM 0) 0 ''sum_llvm.asm'' LLVMAssemblyFile Indeterminate,
      VerifyModule 0 LLVMAbortProcessAction (AddrOf ''error'')]"
proof -
  have "machine_of env0 = TM 0"
    by (simp add: machine_of_def env0_def)
  with verification_and_emission_order [of 0 "[]" env0] show ?thesis
    by simp
qed

subsection \<open>Bounded runs\<close>

text \<open>
  C7. Each \<open>main\<close> is a sequence of calls without loop or recursion (in the model, a
  definition that is not recursive over library functions that are not): every run
  makes a bounded number of steps, at most 18, 28 and 26 library calls and prints, and
  ends: it exits, it is aborted, or it meets undefined behaviour.
\<close>

theorem main_bounded:
  "length (trace (main_Chapter1 argc argv env)) \<le> 18 \<and>
   length (trace (main_Chapter2 argc argv env)) \<le> 28 \<and>
   length (trace (main_toplevel argc argv env)) \<le> 26 \<and>
   status (main_Chapter1 argc argv env) \<noteq> Running \<and>
   status (main_Chapter2 argc argv env) \<noteq> Running \<and>
   status (main_toplevel argc argv env) \<noteq> Running"
  by (simp add: trace_Chapter1 trace_Chapter2 trace_toplevel status_Chapter1 status_Chapter2
        status_toplevel build_calls_def)

theorem main_bounded_witness:
  "length (trace (main_Chapter1 0 [] env0)) \<le> 18 \<and>
   length (trace (main_Chapter2 0 [] env0)) \<le> 28 \<and>
   length (trace (main_toplevel 0 [] env0)) \<le> 26 \<and>
   status (main_toplevel 0 [] env0) \<noteq> Running"
  using main_bounded [of 0 "[]" env0] by simp

subsection \<open>Command-line arguments\<close>

text \<open>
  C10. A run does not depend on \<open>argc\<close> and \<open>argv\<close>: two runs against the same library
  end in the same world, so make the same calls with the same arguments. The file
  names passed are among \<open>sum.bc\<close>, \<open>sum_llvm.o\<close>, \<open>sum_llvm.asm\<close> and \<open>spec_sum.bc\<close>,
  and the only triple passed is \<open>x86_64\<close>.
\<close>

theorem independent_of_arguments:
  "main_Chapter1 argc argv env = main_Chapter1 argc' argv' env \<and>
   main_Chapter2 argc argv env = main_Chapter2 argc' argv' env \<and>
   main_toplevel argc argv env = main_toplevel argc' argv' env \<and>
   file_names (lib_calls (trace (main_Chapter1 argc argv env))) =
     (if verify_result env \<noteq> 0 then [] else [''sum.bc'']) \<and>
   file_names (lib_calls (trace (main_Chapter2 argc argv env))) =
     [''sum_llvm.o'', ''sum_llvm.asm''] \<and>
   file_names (lib_calls (trace (main_toplevel argc argv env))) =
     (if verify_result env \<noteq> 0 then [] else [''sum.bc'', ''spec_sum.bc'']) \<and>
   triples (lib_calls (trace (main_Chapter1 argc argv env))) = [] \<and>
   triples (lib_calls (trace (main_Chapter2 argc argv env))) = [''x86_64'', ''x86_64''] \<and>
   triples (lib_calls (trace (main_toplevel argc argv env))) =
     (if verify_result env \<noteq> 0 then [] else [''x86_64'', ''x86_64''])"
proof -
  have "main_Chapter1 argc argv env = main_Chapter1 argc' argv' env"
    unfolding main_Chapter1_def by (rule refl)
  moreover have "main_Chapter2 argc argv env = main_Chapter2 argc' argv' env"
    unfolding main_Chapter2_def by (rule refl)
  moreover have "main_toplevel argc argv env = main_toplevel argc' argv' env"
    unfolding main_toplevel_def by (rule refl)
  ultimately show ?thesis
    by (simp add: trace_Chapter1 trace_Chapter2 trace_toplevel build_calls_def
          file_names_def file_name_def triples_def triple_of_def)
qed

theorem independent_of_arguments_witness:
  "main_toplevel 1 [''sum''] env0 = main_toplevel 3 [''sum'', ''-o'', ''x''] env0 \<and>
   file_names (lib_calls (trace (main_toplevel 1 [''sum''] env0))) =
     [''sum.bc'', ''spec_sum.bc'']"
proof -
  note indep = independent_of_arguments [of 1 "[''sum'']" env0 3 "[''sum'', ''-o'', ''x'']"]
  have ok: "verify_result env0 = 0"
    by (simp add: env0_def)
  from indep have "main_toplevel 1 [''sum''] env0 = main_toplevel 3 [''sum'', ''-o'', ''x''] env0"
    by blast
  moreover from indep have
    "file_names (lib_calls (trace (main_toplevel 1 [''sum''] env0))) =
       (if verify_result env0 \<noteq> 0 then [] else [''sum.bc'', ''spec_sum.bc''])"
    by blast
  ultimately show ?thesis
    using ok by simp
qed

subsection \<open>Reads of uninitialised pointers\<close>

text \<open>
  C9. In the top-level program the pointer variables \<open>targetRef\<close>, \<open>errPtrTriple\<close>,
  \<open>errPtrFile\<close> and \<open>errPtrMem\<close> are passed to library calls while indeterminate, and
  \<open>targetRef\<close> is dereferenced, on every run that passes the verifier; \<open>errPtrTriple\<close>
  is dereferenced on its error branch. In Chapter2's program \<open>errPtrTriple\<close>,
  \<open>errPtrFileObj\<close> and \<open>errPtrFileAsm\<close> are passed while indeterminate on every run and
  dereferenced exactly on their error branches. Each such read yields no value: the
  target passed to \<open>LLVMCreateTargetMachine\<close> and the string printed are \<open>None\<close>.
\<close>

theorem uninitialised_pointers_read:
  "(verify_result env = 0 \<longrightarrow>
      UninitRead ''targetRef'' \<in> set (faults (main_toplevel argc argv env)) \<and>
      UninitRead ''errPtrTriple'' \<in> set (faults (main_toplevel argc argv env)) \<and>
      UninitRead ''errPtrFile'' \<in> set (faults (main_toplevel argc argv env)) \<and>
      UninitRead ''errPtrMem'' \<in> set (faults (main_toplevel argc argv env)) \<and>
      UninitDeref ''targetRef'' \<in> set (faults (main_toplevel argc argv env)) \<and>
      (UninitDeref ''errPtrTriple'' \<in> set (faults (main_toplevel argc argv env)) \<longleftrightarrow>
         get_target_result env = 1) \<and>
      CreateTargetMachine None ''x86_64'' '''' '''' LLVMCodeGenLevelNone
          LLVMRelocDefault LLVMCodeModelDefault
        \<in> set (lib_calls (trace (main_toplevel argc argv env))) \<and>
      ((''%s\<newline>'', [StrArg None]) \<in> set (stdout_of (trace (main_toplevel argc argv env)))
         \<longleftrightarrow> get_target_result env = 1)) \<and>
   UninitRead ''errPtrTriple'' \<in> set (faults (main_Chapter2 argc argv env)) \<and>
   UninitRead ''errPtrFileObj'' \<in> set (faults (main_Chapter2 argc argv env)) \<and>
   UninitRead ''errPtrFileAsm'' \<in> set (faults (main_Chapter2 argc argv env)) \<and>
   (UninitDeref ''errPtrTriple'' \<in> set (faults (main_Chapter2 argc argv env)) \<longleftrightarrow>
      get_target_result env \<noteq> 0) \<and>
   (UninitDeref ''errPtrFileObj'' \<in> set (faults (main_Chapter2 argc argv env)) \<longleftrightarrow>
      emit_file_result env LLVMObjectFile \<noteq> 0) \<and>
   (UninitDeref ''errPtrFileAsm'' \<in> set (faults (main_Chapter2 argc argv env)) \<longleftrightarrow>
      emit_file_result env LLVMAssemblyFile \<noteq> 0) \<and>
   ((''%s\<newline>'', [StrArg None]) \<in> set (stdout_of (trace (main_Chapter2 argc argv env)))
      \<longleftrightarrow>
    get_target_result env \<noteq> 0 \<or> emit_file_result env LLVMObjectFile \<noteq> 0 \<or>
    emit_file_result env LLVMAssemblyFile \<noteq> 0)"
  by (simp add: faults_toplevel faults_Chapter2 trace_toplevel trace_Chapter2
        build_calls_def)

theorem uninitialised_pointers_read_witness:
  "verify_result (env0\<lparr>get_target_result := 1\<rparr>) = 0 \<and>
   UninitDeref ''targetRef'' \<in>
     set (faults (main_toplevel 0 [] (env0\<lparr>get_target_result := 1\<rparr>))) \<and>
   UninitDeref ''errPtrTriple'' \<in>
     set (faults (main_toplevel 0 [] (env0\<lparr>get_target_result := 1\<rparr>))) \<and>
   UninitDeref ''errPtrTriple'' \<in>
     set (faults (main_Chapter2 0 [] (env0\<lparr>get_target_result := 1\<rparr>))) \<and>
   UninitDeref ''errPtrFileObj'' \<notin>
     set (faults (main_Chapter2 0 [] (env0\<lparr>get_target_result := 1\<rparr>)))"
  using uninitialised_pointers_read [of "env0\<lparr>get_target_result := 1\<rparr>" 0 "[]"]
  by (simp add: env0_def)

subsection \<open>The three forms\<close>



subsection \<open>The bitcode file\<close>

lemma Chapter1_bitcode_message:
  assumes "verify_result env = 0"
  shows
    "stderr_of (real_trace (main_Chapter1 argc argv env)) =
       (if write_bitcode_result env \<noteq> 0
        then [(''error writing bitcode to file, skipping\<newline>'', [])] else []) \<and>
     reached_end (main_Chapter1 argc argv env) \<and>
     builders (main_Chapter1 argc argv env) = [Disposed] \<and>
     status (main_Chapter1 argc argv env) = Exited 0"
  using assms
  by (simp add: real_trace_Chapter1 trace_Chapter1 reached_end_Chapter1 builders_Chapter1
        status_Chapter1 build_calls_def)

text \<open>
  C5. The claim is that Chapter1's program and the top-level program print the line
  \<open>error writing bitcode to file, skipping\<close> on standard error exactly when
  \<open>LLVMWriteBitcodeToFile\<close> returns a result other than 0, and in both cases go on to
  the end of \<open>main\<close>, where the builder is disposed. Chapter1's program does (the lemma
  above). The top-level program prints the line so, but does not get to the end of
  \<open>main\<close>: after the write it passes \<open>targetRef\<close>, which was never assigned, to
  \<open>LLVMGetTargetFromTriple\<close>, which stores through it. That call is the last event of
  the run, whether the write succeeded or not, and \<open>LLVMDisposeBuilder\<close> is not called.
\<close>

theorem toplevel_stops_before_end:
  "status (main_toplevel 0 [] env0) = Undefined \<and>
   \<not> reached_end (main_toplevel 0 [] env0) \<and>
   stderr_of (real_trace (main_toplevel 0 [] env0)) = [] \<and>
   last (real_trace (main_toplevel 0 [] env0)) =
     Call (GetTargetFromTriple ''x86_64'' Indeterminate Indeterminate) \<and>
   DisposeBuilder 0 \<notin> set (lib_calls (real_trace (main_toplevel 0 [] env0))) \<and>
   WildStore ''LLVMGetTargetFromTriple'' \<in> set (faults (main_toplevel 0 [] env0)) \<and>
   status (main_toplevel 0 [] (env0\<lparr>write_bitcode_result := 1\<rparr>)) = Undefined \<and>
   \<not> reached_end (main_toplevel 0 [] (env0\<lparr>write_bitcode_result := 1\<rparr>)) \<and>
   stderr_of (real_trace (main_toplevel 0 [] (env0\<lparr>write_bitcode_result := 1\<rparr>))) =
     [(''error writing bitcode to file, skipping\<newline>'', [])] \<and>
   last (real_trace (main_toplevel 0 [] (env0\<lparr>write_bitcode_result := 1\<rparr>))) =
     Call (GetTargetFromTriple ''x86_64'' Indeterminate Indeterminate) \<and>
   DisposeBuilder 0 \<notin>
     set (lib_calls (real_trace (main_toplevel 0 [] (env0\<lparr>write_bitcode_result := 1\<rparr>))))"
  by (simp add: status_toplevel reached_end_toplevel real_trace_toplevel faults_toplevel
        build_calls_def env0_def)

subsection \<open>The exit status\<close>

text \<open>
  C6. A run that reaches the end of \<open>main\<close> exits with status 0, and no run exits with
  another status. Chapter1's program reaches the end on every run that passes the
  verifier, whatever \<open>LLVMWriteBitcodeToFile\<close> returned, and its status does not depend
  on that result. Chapter2's program reaches the end when the lookup, both emissions
  and the verification succeed. The top-level program has no run that reaches the end
  of \<open>main\<close>: it is aborted by the verifier or meets undefined behaviour in the target
  lookup.
\<close>

theorem exit_status_zero:
  "(reached_end (main_Chapter1 argc argv env) \<longrightarrow>
      status (main_Chapter1 argc argv env) = Exited 0) \<and>
   (reached_end (main_Chapter2 argc argv env) \<longrightarrow>
      status (main_Chapter2 argc argv env) = Exited 0) \<and>
   (status (main_Chapter1 argc argv env) = Exited n \<longrightarrow> n = 0) \<and>
   (status (main_Chapter2 argc argv env) = Exited n \<longrightarrow> n = 0) \<and>
   (verify_result env = 0 \<longrightarrow>
      reached_end (main_Chapter1 argc argv env) \<and>
      status (main_Chapter1 argc argv env) = Exited 0) \<and>
   status (main_Chapter1 argc argv (env\<lparr>write_bitcode_result := r\<rparr>)) =
     status (main_Chapter1 argc argv env) \<and>
   (get_target_result env = 0 \<and> get_target_out env \<noteq> NullTarget \<and>
    emit_file_result env LLVMObjectFile = 0 \<and> emit_file_result env LLVMAssemblyFile = 0 \<and>
    verify_result env = 0 \<longrightarrow>
      reached_end (main_Chapter2 argc argv env) \<and>
      status (main_Chapter2 argc argv env) = Exited 0) \<and>
   \<not> reached_end (main_toplevel argc argv env) \<and>
   status (main_toplevel argc argv env) =
     (if verify_result env \<noteq> 0 then Aborted else Undefined)"
  by (simp add: reached_end_Chapter1 reached_end_Chapter2 reached_end_toplevel
        status_Chapter1 status_Chapter2 status_toplevel)

theorem exit_status_zero_witness:
  "verify_result (env0\<lparr>write_bitcode_result := 1\<rparr>) = 0 \<and>
   reached_end (main_Chapter1 0 [] (env0\<lparr>write_bitcode_result := 1\<rparr>)) \<and>
   status (main_Chapter1 0 [] (env0\<lparr>write_bitcode_result := 1\<rparr>)) = Exited 0 \<and>
   reached_end (main_Chapter2 0 [] env0) \<and>
   status (main_Chapter2 0 [] env0) = Exited 0"
proof -
  have ok1: "verify_result (env0\<lparr>write_bitcode_result := 1\<rparr>) = 0"
    by (simp add: env0_def)
  have ok0:
    "get_target_result env0 = 0 \<and> get_target_out env0 \<noteq> NullTarget \<and>
     emit_file_result env0 LLVMObjectFile = 0 \<and>
     emit_file_result env0 LLVMAssemblyFile = 0 \<and> verify_result env0 = 0"
    by (simp add: env0_def)
  from exit_status_zero [where argc = 0 and argv = "[]"
         and env = "env0\<lparr>write_bitcode_result := 1\<rparr>"] ok1
  have "reached_end (main_Chapter1 0 [] (env0\<lparr>write_bitcode_result := 1\<rparr>)) \<and>
        status (main_Chapter1 0 [] (env0\<lparr>write_bitcode_result := 1\<rparr>)) = Exited 0"
    by blast
  moreover from exit_status_zero [where argc = 0 and argv = "[]" and env = env0] ok0
  have "reached_end (main_Chapter2 0 [] env0) \<and> status (main_Chapter2 0 [] env0) = Exited 0"
    by blast
  ultimately show ?thesis
    using ok1 by blast
qed

subsection \<open>The message of the target lookup\<close>

text \<open>
  C8. The claim is that the top-level program prints the error message of the target
  lookup exactly when \<open>LLVMGetTargetFromTriple\<close> returned 1, and Chapter2's program for
  every result other than 0. The programs test the result so (\<^verbatim>\<open>res == 1\<close>,
  \<^verbatim>\<open>resTriple != 0\<close>), but no message is printed: \<open>errPtrTriple\<close> was never assigned, the
  library stores its message through it and the branch dereferences it. Against a
  library that finds no target, the lookup is the last event of Chapter2's run and of
  the top-level run, and the only line on standard output is the triple.
\<close>

theorem lookup_message_not_printed:
  "get_target_result env_no_target = 1 \<and>
   status (main_Chapter2 0 [] env_no_target) = Undefined \<and>
   stdout_of (real_trace (main_Chapter2 0 [] env_no_target)) =
     [(''%s\<newline>'', [StrArg (Some (Str ''x86_64''))])] \<and>
   last (real_trace (main_Chapter2 0 [] env_no_target)) =
     Call (GetTargetFromTriple ''x86_64'' (AddrOf ''targetRef'') Indeterminate) \<and>
   WildStore ''LLVMGetTargetFromTriple'' \<in> set (faults (main_Chapter2 0 [] env_no_target)) \<and>
   UninitDeref ''errPtrTriple'' \<in> set (faults (main_Chapter2 0 [] env_no_target)) \<and>
   status (main_toplevel 0 [] env_no_target) = Undefined \<and>
   stdout_of (real_trace (main_toplevel 0 [] env_no_target)) =
     [(''%s\<newline>'', [StrArg (Some (Str ''x86_64''))])] \<and>
   last (real_trace (main_toplevel 0 [] env_no_target)) =
     Call (GetTargetFromTriple ''x86_64'' Indeterminate Indeterminate) \<and>
   UninitDeref ''errPtrTriple'' \<in> set (faults (main_toplevel 0 [] env_no_target))"
  by (simp add: status_Chapter2 status_toplevel real_trace_Chapter2 real_trace_toplevel
        faults_Chapter2 faults_toplevel build_calls_def env_no_target_def env0_def)

subsection \<open>The reaction to errors\<close>




end
